theory Spec2Isabelle
  imports Complex_Main
begin

section \<open>The task record\<close>

text \<open>
  Modelled from the spec: the type declarations \<open>Task\<close> and \<open>TaskStatus\<close> of the module
  \<open>types\<close>, which the service and the dashboard import. The spec's data model
  lists the fields; the fields the core does not interpret (title, notes, ...) are kept as an
  opaque list of key/value pairs. A status read back from storage is not validated, so a
  fourth constructor stands for any value outside the enumeration. \<open>startTime\<close> is optional
  because the service tests it for absence; \<open>endTime\<close> and \<open>subtasks\<close> are optional only in
  the argument of \<open>createTask\<close>, which fills them in.
\<close>

datatype TaskStatus = NOT_STARTED | IN_PROGRESS | COMPLETED | Unlisted string

record Task =
  task_id :: string
  date :: string
  startTime :: "string option"
  endTime :: string
  status :: TaskStatus
  subtasks :: "string list"
  createdAt :: int
  updatedAt :: int
  payload :: "(string \<times> string) list"

text \<open>The argument of \<open>createTask\<close>: a task without \<open>id\<close>, \<open>createdAt\<close> and \<open>updatedAt\<close>.\<close>

record TaskInput =
  new_date :: string
  new_startTime :: "string option"
  new_endTime :: "string option"
  new_status :: TaskStatus
  new_subtasks :: "string list option"
  new_payload :: "(string \<times> string) list"

section \<open>The browser's storage\<close>

text \<open>
  Only the slot under the fixed key matters. The text held there is represented by what
  \<open>JSON.parse\<close> makes of it: the empty string, a text that does not parse, or the
  serialisation of a list of task records, which \<open>JSON.stringify\<close> writes and
  \<open>JSON.parse\<close> reads back unchanged. Texts that parse to something else than an array of
  task records are outside the model (the service's own writes never produce one), and
  \<open>setItem\<close> is taken to succeed.
\<close>

datatype stored_text = Blank | Malformed | Json "Task list"

type_synonym localStorage = "stored_text option"

datatype error = SyntaxError | TaskNotFound | RangeError

definition getItem :: "localStorage \<Rightarrow> stored_text option" where
  "getItem st = st"

definition setItem :: "stored_text \<Rightarrow> localStorage \<Rightarrow> localStorage" where
  "setItem v st = Some v"

fun JSON_parse :: "stored_text \<Rightarrow> error + Task list" where
  "JSON_parse Blank = Inl SyntaxError"
| "JSON_parse Malformed = Inl SyntaxError"
| "JSON_parse (Json ts) = Inr ts"

definition JSON_stringify :: "Task list \<Rightarrow> stored_text" where
  "JSON_stringify ts = Json ts"

section \<open>Strings and numbers of the host language\<close>

text \<open>
  A number is an integer or \<open>NaN\<close> (\<open>None\<close>). \<open>Number\<close> is modelled on strings of decimal
  digits, the pieces a well-formed \<open>HH:MM\<close> or \<open>YYYY-MM-DD\<close> string splits into; the empty
  string converts to 0. Every other string is taken to \<open>NaN\<close>: signed, fractional,
  exponent, hexadecimal and blank-padded numerals are not covered by this model.
\<close>

type_synonym number = "int option"

definition is_digit :: "char \<Rightarrow> bool" where
  "is_digit c = (48 \<le> (of_char c :: nat) \<and> (of_char c :: nat) \<le> 57)"

fun digits_value :: "nat \<Rightarrow> string \<Rightarrow> nat" where
  "digits_value acc [] = acc"
| "digits_value acc (c # cs) = digits_value (10 * acc + ((of_char c :: nat) - 48)) cs"

definition Number :: "string \<Rightarrow> number" where
  "Number s = (if list_all is_digit s then Some (int (digits_value 0 s)) else None)"

text \<open>\<open>s.split(c)\<close> for a one-character separator: always at least one piece.\<close>

fun split :: "char \<Rightarrow> string \<Rightarrow> string list" where
  "split c [] = [[]]"
| "split c (x # xs) =
     (if x = c then [] # split c xs
      else (case split c xs of [] \<Rightarrow> [[x]] | p # ps \<Rightarrow> (x # p) # ps))"

text \<open>Array destructuring: the element at a position, \<open>undefined\<close> when there is none.\<close>

fun element :: "'a list \<Rightarrow> nat \<Rightarrow> 'a option" where
  "element [] n = None"
| "element (x # xs) 0 = Some x"
| "element (x # xs) (Suc n) = element xs n"

definition digit :: "nat \<Rightarrow> char" where
  "digit n = char_of (48 + n)"

fun decimal :: "nat \<Rightarrow> string" where
  "decimal n = (if n < 10 then [digit n] else decimal (n div 10) @ [digit (n mod 10)])"

declare decimal.simps [simp del]

text \<open>\<open>toString\<close> of a number (decimal notation, which the host uses below \<open>10^21\<close>).\<close>

definition toString :: "number \<Rightarrow> string" where
  "toString x = (case x of None \<Rightarrow> ''NaN''
     | Some n \<Rightarrow> if n < 0 then CHR ''-'' # decimal (nat (- n)) else decimal (nat n))"

definition padStart :: "nat \<Rightarrow> char \<Rightarrow> string \<Rightarrow> string" where
  "padStart n c s = replicate (n - length s) c @ s"

section \<open>Dates of the host language\<close>

text \<open>
  A \<open>Date\<close> holds a time value: milliseconds since the epoch in UTC, or \<open>NaN\<close> for an
  invalid date. Local time is UTC plus a fixed offset \<open>tz\<close> in milliseconds; zones whose
  offset changes (daylight saving) are outside the model. The functions follow the
  abstract operations of the language standard, on integers.
\<close>

type_synonym Date = "int option"

definition msPerDay :: int where "msPerDay = 86400000"
definition msPerHour :: int where "msPerHour = 3600000"
definition msPerMinute :: int where "msPerMinute = 60000"
definition msPerSecond :: int where "msPerSecond = 1000"

definition TimeClip :: "int \<Rightarrow> Date" where
  "TimeClip t = (if \<bar>t\<bar> \<le> 8640000000000000 then Some t else None)"

definition LocalTime :: "int \<Rightarrow> int \<Rightarrow> int" where
  "LocalTime tz t = t + tz"

definition UTC :: "int \<Rightarrow> int \<Rightarrow> int" where
  "UTC tz t = t - tz"

definition Day :: "int \<Rightarrow> int" where
  "Day t = t div msPerDay"


definition HourFromTime :: "int \<Rightarrow> int" where
  "HourFromTime t = (t div msPerHour) mod 24"

definition MinFromTime :: "int \<Rightarrow> int" where
  "MinFromTime t = (t div msPerMinute) mod 60"

definition SecFromTime :: "int \<Rightarrow> int" where
  "SecFromTime t = (t div msPerSecond) mod 60"

definition msFromTime :: "int \<Rightarrow> int" where
  "msFromTime t = t mod msPerSecond"

definition MakeTime :: "int \<Rightarrow> int \<Rightarrow> int \<Rightarrow> int \<Rightarrow> int" where
  "MakeTime h m s ms = h * msPerHour + m * msPerMinute + s * msPerSecond + ms"

definition MakeDate :: "int \<Rightarrow> int \<Rightarrow> int" where
  "MakeDate day time = day * msPerDay + time"

text \<open>\<open>d.setHours(h)\<close> and \<open>d.setMinutes(m)\<close> with one argument; the result is the date afterwards.\<close>

definition setHours :: "int \<Rightarrow> Date \<Rightarrow> number \<Rightarrow> Date" where
  "setHours tz d h = (case (d, h) of
      (Some u, Some h') \<Rightarrow>
        (let t = LocalTime tz u
         in TimeClip (UTC tz (MakeDate (Day t)
              (MakeTime h' (MinFromTime t) (SecFromTime t) (msFromTime t)))))
    | _ \<Rightarrow> None)"

definition setMinutes :: "int \<Rightarrow> Date \<Rightarrow> number \<Rightarrow> Date" where
  "setMinutes tz d m = (case (d, m) of
      (Some u, Some m') \<Rightarrow>
        (let t = LocalTime tz u
         in TimeClip (UTC tz (MakeDate (Day t)
              (MakeTime (HourFromTime t) m' (SecFromTime t) (msFromTime t)))))
    | _ \<Rightarrow> None)"

definition getHours :: "int \<Rightarrow> Date \<Rightarrow> number" where
  "getHours tz d = map_option (\<lambda>u. HourFromTime (LocalTime tz u)) d"

definition getMinutes :: "int \<Rightarrow> Date \<Rightarrow> number" where
  "getMinutes tz d = map_option (\<lambda>u. MinFromTime (LocalTime tz u)) d"

section \<open>The task service\<close>

text \<open>
  Each operation takes the storage and returns its result with the storage afterwards.
  What an operation reads from its surroundings (the clock, the generator of identifiers,
  the time zone) is an argument. The line \<open>getAllTasks\<close> writes to the console when the
  text does not parse is left out.
\<close>

definition getAllTasks :: "localStorage \<Rightarrow> Task list \<times> localStorage" where
  "getAllTasks st =
     (case getItem st of
        None \<Rightarrow> ([], st)
      | Some data \<Rightarrow>
          if data = Blank then ([], st)
          else (case JSON_parse data of Inr ts \<Rightarrow> (ts, st) | Inl e \<Rightarrow> ([], st)))"

definition saveAllTasks :: "Task list \<Rightarrow> localStorage \<Rightarrow> localStorage" where
  "saveAllTasks tasks st = setItem (JSON_stringify tasks) st"

text \<open>Helper to add 1 hour to start time for default end time.\<close>

definition calculateDefaultEndTime :: "int \<Rightarrow> int \<Rightarrow> string option \<Rightarrow> string" where
  "calculateDefaultEndTime tz today start =
     (case start of
        None \<Rightarrow> ''10:00''
      | Some s \<Rightarrow>
          if s = [] then ''10:00''
          else
            (let parts = map Number (split CHR '':'' s);
                 h = (case element parts 0 of Some x \<Rightarrow> x | None \<Rightarrow> None);
                 m = (case element parts 1 of Some x \<Rightarrow> x | None \<Rightarrow> None);
                 d0 = Some today;
                 d1 = setHours tz d0 h;
                 d2 = setMinutes tz d1 (map_option (\<lambda>x. x + 60) m);
                 newH = padStart 2 CHR ''0'' (toString (getHours tz d2));
                 newM = padStart 2 CHR ''0'' (toString (getMinutes tz d2))
             in newH @ '':'' @ newM))"

text \<open>
  What one call of \<open>createTask\<close> reads: the zone offset and the value of \<open>new Date()\<close>
  (used when the end time is computed), the identifier from \<open>crypto.randomUUID()\<close>, and
  the two readings of \<open>Date.now()\<close>, in the order of the calls.
\<close>

record Ambient =
  zone :: int
  newDate :: int
  randomUUID :: string
  now1 :: int
  now2 :: int

definition createTask :: "Ambient \<Rightarrow> TaskInput \<Rightarrow> localStorage \<Rightarrow> Task \<times> localStorage" where
  "createTask env task st =
     (let tasks = fst (getAllTasks st);
          newTask = \<lparr> task_id = randomUUID env,
                      date = new_date task,
                      startTime = new_startTime task,
                      endTime = (case new_endTime task of
                                   Some e \<Rightarrow> if e \<noteq> [] then e
                                     else calculateDefaultEndTime (zone env) (newDate env) (new_startTime task)
                                 | None \<Rightarrow> calculateDefaultEndTime (zone env) (newDate env) (new_startTime task)),
                      status = new_status task,
                      subtasks = (case new_subtasks task of Some s \<Rightarrow> s | None \<Rightarrow> []),
                      createdAt = now1 env,
                      updatedAt = now2 env,
                      payload = new_payload task \<rparr>
      in (newTask, saveAllTasks (tasks @ [newTask]) st))"

fun findIndex :: "('a \<Rightarrow> bool) \<Rightarrow> 'a list \<Rightarrow> nat option" where
  "findIndex P [] = None"
| "findIndex P (x # xs) = (if P x then Some 0 else map_option Suc (findIndex P xs))"

definition updateTask :: "int \<Rightarrow> Task \<Rightarrow> localStorage \<Rightarrow> (error + Task) \<times> localStorage" where
  "updateTask now updatedTask st =
     (let tasks = fst (getAllTasks st)
      in case findIndex (\<lambda>t. task_id t = task_id updatedTask) tasks of
           Some index \<Rightarrow>
             (let tasks' = tasks[index := updatedTask\<lparr>updatedAt := now\<rparr>]
              in (Inr (tasks' ! index), saveAllTasks tasks' st))
         | None \<Rightarrow> (Inl TaskNotFound, st))"

definition deleteTask :: "string \<Rightarrow> localStorage \<Rightarrow> localStorage" where
  "deleteTask taskId st =
     (let tasks = fst (getAllTasks st);
          filtered = filter (\<lambda>t. task_id t \<noteq> taskId) tasks
      in saveAllTasks filtered st)"

text \<open>The collection as the service reads it from a storage.\<close>

abbreviation collection :: "localStorage \<Rightarrow> Task list" where
  "collection st \<equiv> fst (getAllTasks st)"

text \<open>A task record for the worked examples, with a chosen identifier.\<close>

definition exampleTask :: "string \<Rightarrow> Task" where
  "exampleTask i = \<lparr> task_id = i, date = ''2024-03-10'', startTime = Some ''09:00'',
     endTime = ''10:00'', status = NOT_STARTED, subtasks = [], createdAt = 1710000000000,
     updatedAt = 1710000000000, payload = [(''title'', ''Write report'')] \<rparr>"

section \<open>The calendar of the host language\<close>

text \<open>
  Day numbers count from 1 January 1970. The definitions are those of the language
  standard: the days in a year, the day a year starts on, the year of a day (the largest
  year that starts on or before it, found here from an estimate that is off by at most
  one), the month (from 0) and the day of the month (from 1) by the table of month starts,
  and the day of the week (0 is Sunday).
\<close>

definition DaysInYear :: "int \<Rightarrow> int" where
  "DaysInYear y =
     (if y mod 4 \<noteq> 0 then 365 else if y mod 100 \<noteq> 0 then 366
      else if y mod 400 \<noteq> 0 then 365 else 366)"

definition DayFromYear :: "int \<Rightarrow> int" where
  "DayFromYear y = 365 * (y - 1970) + (y - 1969) div 4 - (y - 1901) div 100 + (y - 1601) div 400"

definition YearFromDay :: "int \<Rightarrow> int" where
  "YearFromDay d =
     (let y = 1970 + (400 * d) div 146097
      in if DayFromYear (y + 1) \<le> d then y + 1 else if DayFromYear y \<le> d then y else y - 1)"


























section \<open>The dashboard\<close>





















section \<open>The week and the scheduled day as the spec words them\<close>






section \<open>The trend window and the pie chart as the spec words them\<close>





section \<open>Times of day as the spec words them\<close>



text \<open>Inputs for the worked examples.\<close>

definition exampleInput :: "string option \<Rightarrow> TaskInput" where
  "exampleInput start = \<lparr> new_date = ''2024-03-10'', new_startTime = start, new_endTime = None,
     new_status = NOT_STARTED, new_subtasks = None, new_payload = [(''title'', ''Write report'')] \<rparr>"

definition exampleAmbient :: "string \<Rightarrow> Ambient" where
  "exampleAmbient u = \<lparr> zone = 3600000, newDate = 1710000000000, randomUUID = u,
     now1 = 1710000000000, now2 = 1710000000001 \<rparr>"

section \<open>Sequences of operations\<close>









section \<open>Reading the collection\<close>

lemma getAllTasks_state: "snd (getAllTasks st) = st"
  by (simp add: getAllTasks_def split: option.splits sum.splits)

lemma getAllTasks_saved: "fst (getAllTasks (saveAllTasks ts st)) = ts"
  by (simp add: getAllTasks_def saveAllTasks_def setItem_def getItem_def JSON_stringify_def)

lemma findIndex_None: "(findIndex P xs = None) = (\<forall>x \<in> set xs. \<not> P x)"
  by (induction xs) auto

lemma findIndex_Some:
  "findIndex P xs = Some i \<Longrightarrow> i < length xs \<and> P (xs ! i) \<and> (\<forall>j < i. \<not> P (xs ! j))"
proof (induction xs arbitrary: i)
  case Nil
  then show ?case by simp
next
  case (Cons x xs)
  show ?case
  proof (cases "P x")
    case True
    with Cons.prems show ?thesis by simp
  next
    case False
    with Cons.prems obtain k where k: "findIndex P xs = Some k" "i = Suc k"
      by auto
    from Cons.IH [OF k(1)] False k(2) show ?thesis
      by (auto simp: less_Suc_eq_0_disj)
  qed
qed

lemma updateTask_missing:
  "task_id u \<notin> task_id ` set (fst (getAllTasks st)) \<Longrightarrow> updateTask now u st = (Inl TaskNotFound, st)"
proof -
  assume a: "task_id u \<notin> task_id ` set (fst (getAllTasks st))"
  have "findIndex (\<lambda>t. task_id t = task_id u) (fst (getAllTasks st)) = None"
    using a by (fastforce simp: findIndex_None image_iff)
  then show ?thesis by (simp add: updateTask_def)
qed

lemma updateTask_present:
  assumes "task_id u \<in> task_id ` set (fst (getAllTasks st))"
  shows "\<exists>i < length (fst (getAllTasks st)).
           task_id (fst (getAllTasks st) ! i) = task_id u
         \<and> (\<forall>j < i. task_id (fst (getAllTasks st) ! j) \<noteq> task_id u)
         \<and> updateTask now u st =
             (Inr (u\<lparr>updatedAt := now\<rparr>),
              saveAllTasks ((fst (getAllTasks st))[i := u\<lparr>updatedAt := now\<rparr>]) st)"
proof -
  let ?ts = "fst (getAllTasks st)"
  have "findIndex (\<lambda>t. task_id t = task_id u) ?ts \<noteq> None"
    using assms by (auto simp: findIndex_None)
  then obtain i where i: "findIndex (\<lambda>t. task_id t = task_id u) ?ts = Some i"
    by auto
  from findIndex_Some [OF i] have p: "i < length ?ts" "task_id (?ts ! i) = task_id u"
    "\<forall>j < i. task_id (?ts ! j) \<noteq> task_id u" by auto
  have "updateTask now u st = (Inr (u\<lparr>updatedAt := now\<rparr>), saveAllTasks (?ts[i := u\<lparr>updatedAt := now\<rparr>]) st)"
    using i p(1) by (simp add: updateTask_def)
  with p show ?thesis by blast
qed

lemma deleteTask_idem: "deleteTask k (deleteTask k st) = deleteTask k st"
  by (simp add: deleteTask_def getAllTasks_saved) (simp add: saveAllTasks_def setItem_def)

lemma deleteTask_tasks: "fst (getAllTasks (deleteTask k st)) = filter (\<lambda>t. task_id t \<noteq> k) (fst (getAllTasks st))"
  by (simp add: deleteTask_def getAllTasks_saved)

text \<open>
  C7: when the key is absent or its text does not parse, \<open>getAllTasks\<close> returns the empty
  sequence instead of raising; and in every case it leaves the storage as it found it.
\<close>

theorem getAllTasks_best_effort:
  "snd (getAllTasks st) = st \<and>
   ((getItem st = None \<or> (\<exists>data. getItem st = Some data \<and> JSON_parse data = Inl SyntaxError))
      \<longrightarrow> fst (getAllTasks st) = [])"
  by (auto simp: getAllTasks_def getItem_def split: option.splits sum.splits)

theorem getAllTasks_best_effort_witness:
  "getItem None = None \<and> getAllTasks None = ([], None) \<and>
   getItem (Some Malformed) = Some Malformed \<and> JSON_parse Malformed = Inl SyntaxError \<and>
   getAllTasks (Some Malformed) = ([], Some Malformed)"
  using getAllTasks_best_effort [of None] getAllTasks_best_effort [of "Some Malformed"]
  by (simp add: getItem_def prod_eq_iff)

section \<open>Updating\<close>

text \<open>
  C5: when no stored record has the argument's id, \<open>updateTask\<close> fails with the not-found
  error and the storage is left as it was; when a stored record has it, the first such
  record is replaced by the supplied fields with \<open>updatedAt\<close> set to the clock reading, the
  whole collection is persisted, and the updated record is returned.
\<close>

theorem updateTask_result:
  "(task_id u \<notin> task_id ` set (collection st) \<longrightarrow>
      updateTask now u st = (Inl TaskNotFound, st)) \<and>
   (task_id u \<in> task_id ` set (collection st) \<longrightarrow>
      (\<exists>i < length (collection st).
          task_id (collection st ! i) = task_id u \<and>
          (\<forall>j < i. task_id (collection st ! j) \<noteq> task_id u) \<and>
          fst (updateTask now u st) = Inr (u\<lparr>updatedAt := now\<rparr>) \<and>
          collection (snd (updateTask now u st)) = (collection st)[i := u\<lparr>updatedAt := now\<rparr>]))"
proof (intro conjI impI)
  assume "task_id u \<notin> task_id ` set (collection st)"
  then show "updateTask now u st = (Inl TaskNotFound, st)"
    by (rule updateTask_missing)
next
  assume "task_id u \<in> task_id ` set (collection st)"
  from updateTask_present [OF this, of now]
  obtain i where i: "i < length (collection st)" "task_id (collection st ! i) = task_id u"
    "\<forall>j < i. task_id (collection st ! j) \<noteq> task_id u"
    "updateTask now u st = (Inr (u\<lparr>updatedAt := now\<rparr>),
        saveAllTasks ((collection st)[i := u\<lparr>updatedAt := now\<rparr>]) st)"
    by blast
  have "collection (snd (updateTask now u st)) = (collection st)[i := u\<lparr>updatedAt := now\<rparr>]"
    by (simp add: i(4) getAllTasks_saved)
  with i show "\<exists>i < length (collection st).
          task_id (collection st ! i) = task_id u \<and>
          (\<forall>j < i. task_id (collection st ! j) \<noteq> task_id u) \<and>
          fst (updateTask now u st) = Inr (u\<lparr>updatedAt := now\<rparr>) \<and>
          collection (snd (updateTask now u st)) = (collection st)[i := u\<lparr>updatedAt := now\<rparr>]"
    by auto
qed

theorem updateTask_result_witness:
  "task_id (exampleTask ''c'') \<notin> task_id ` set (collection (Some (Json [exampleTask ''a'', exampleTask ''b'']))) \<and>
   updateTask 1710000005000 (exampleTask ''c'') (Some (Json [exampleTask ''a'', exampleTask ''b'']))
     = (Inl TaskNotFound, Some (Json [exampleTask ''a'', exampleTask ''b''])) \<and>
   task_id ((exampleTask ''b'')\<lparr>status := COMPLETED\<rparr>) \<in> task_id ` set (collection (Some (Json [exampleTask ''a'', exampleTask ''b'']))) \<and>
   updateTask 1710000005000 ((exampleTask ''b'')\<lparr>status := COMPLETED\<rparr>) (Some (Json [exampleTask ''a'', exampleTask ''b'']))
     = (Inr ((exampleTask ''b'')\<lparr>status := COMPLETED, updatedAt := 1710000005000\<rparr>),
        Some (Json [exampleTask ''a'', (exampleTask ''b'')\<lparr>status := COMPLETED, updatedAt := 1710000005000\<rparr>]))"
  using updateTask_result [of "exampleTask ''c''" "Some (Json [exampleTask ''a'', exampleTask ''b''])" 1710000005000]
    updateTask_result [of "(exampleTask ''b'')\<lparr>status := COMPLETED\<rparr>" "Some (Json [exampleTask ''a'', exampleTask ''b''])" 1710000005000]
  by (simp add: updateTask_def getAllTasks_def getItem_def saveAllTasks_def setItem_def
      JSON_stringify_def exampleTask_def)

section \<open>Deleting\<close>

text \<open>
  C8: \<open>deleteTask\<close> leaves no record with the given id, changes nothing in the collection
  when no record has it (there is no error branch), and a second call in a row leaves the
  storage as the first call left it.
\<close>

theorem deleteTask_idempotent:
  "deleteTask k (deleteTask k st) = deleteTask k st \<and>
   k \<notin> task_id ` set (collection (deleteTask k st)) \<and>
   (k \<notin> task_id ` set (collection st) \<longrightarrow> collection (deleteTask k st) = collection st)"
proof (intro conjI impI)
  show "deleteTask k (deleteTask k st) = deleteTask k st" by (rule deleteTask_idem)
  show "k \<notin> task_id ` set (collection (deleteTask k st))"
    by (auto simp: deleteTask_tasks)
next
  assume "k \<notin> task_id ` set (collection st)"
  then have "\<forall>t \<in> set (collection st). task_id t \<noteq> k" by auto
  then show "collection (deleteTask k st) = collection st"
    by (simp add: deleteTask_tasks)
qed

theorem deleteTask_idempotent_witness:
  "''c'' \<notin> task_id ` set (collection (Some (Json [exampleTask ''a'', exampleTask ''b'']))) \<and>
   collection (deleteTask ''c'' (Some (Json [exampleTask ''a'', exampleTask ''b''])))
     = [exampleTask ''a'', exampleTask ''b''] \<and>
   deleteTask ''a'' (Some (Json [exampleTask ''a'', exampleTask ''b''])) = Some (Json [exampleTask ''b'']) \<and>
   deleteTask ''a'' (deleteTask ''a'' (Some (Json [exampleTask ''a'', exampleTask ''b'']))) = Some (Json [exampleTask ''b''])"
  using deleteTask_idempotent [of "''c''" "Some (Json [exampleTask ''a'', exampleTask ''b''])"]
    deleteTask_idempotent [of "''a''" "Some (Json [exampleTask ''a'', exampleTask ''b''])"]
  by (simp add: deleteTask_def getAllTasks_def getItem_def saveAllTasks_def setItem_def
      JSON_stringify_def exampleTask_def)

section \<open>What updating and deleting leave alone\<close>

text \<open>
  C10: a successful \<open>updateTask\<close> keeps the length of the collection, puts the returned
  record at the index of the record it replaces, and leaves every record with another id
  where and as it was; \<open>deleteTask\<close> keeps exactly the records with another id, in their
  order, so every record with the given id goes, duplicates included.
\<close>

theorem update_delete_frame:
  "(\<forall>r st'. updateTask now u st = (Inr r, st') \<longrightarrow>
      length (collection st') = length (collection st) \<and>
      (\<exists>i < length (collection st).
          task_id (collection st ! i) = task_id u \<and> collection st' = (collection st)[i := r]) \<and>
      (\<forall>j < length (collection st).
          task_id (collection st ! j) \<noteq> task_id u \<longrightarrow> collection st' ! j = collection st ! j)) \<and>
   collection (deleteTask k st) = filter (\<lambda>t. task_id t \<noteq> k) (collection st)"
proof (intro conjI allI impI)
  show "collection (deleteTask k st) = filter (\<lambda>t. task_id t \<noteq> k) (collection st)"
    by (rule deleteTask_tasks)
next
  fix r st'
  assume ok: "updateTask now u st = (Inr r, st')"
  have mem: "task_id u \<in> task_id ` set (collection st)"
  proof (rule ccontr)
    assume "task_id u \<notin> task_id ` set (collection st)"
    from updateTask_missing [OF this, of now] ok show False by simp
  qed
  from updateTask_present [OF mem, of now] ok
  obtain i where i: "i < length (collection st)" "task_id (collection st ! i) = task_id u"
    "r = u\<lparr>updatedAt := now\<rparr>" "st' = saveAllTasks ((collection st)[i := r]) st"
    by auto
  have after: "collection st' = (collection st)[i := r]"
    by (simp add: i(4) getAllTasks_saved)
  show "length (collection st') = length (collection st)"
    by (simp add: after)
  show "\<exists>i < length (collection st).
          task_id (collection st ! i) = task_id u \<and> collection st' = (collection st)[i := r]"
    using i(1,2) after by blast
  show "\<And>j. j < length (collection st) \<Longrightarrow> task_id (collection st ! j) \<noteq> task_id u \<Longrightarrow>
          collection st' ! j = collection st ! j"
    using i(2) after by (metis nth_list_update_neq)
qed

theorem update_delete_frame_witness:
  "updateTask 1710000005000 ((exampleTask ''b'')\<lparr>status := COMPLETED\<rparr>)
       (Some (Json [exampleTask ''a'', exampleTask ''b'', exampleTask ''c'']))
     = (Inr ((exampleTask ''b'')\<lparr>status := COMPLETED, updatedAt := 1710000005000\<rparr>),
        Some (Json [exampleTask ''a'',
           (exampleTask ''b'')\<lparr>status := COMPLETED, updatedAt := 1710000005000\<rparr>, exampleTask ''c''])) \<and>
   collection (Some (Json [exampleTask ''a'',
       (exampleTask ''b'')\<lparr>status := COMPLETED, updatedAt := 1710000005000\<rparr>, exampleTask ''c''])) ! 0
     = exampleTask ''a'' \<and>
   collection (deleteTask ''b'' (Some (Json [exampleTask ''a'', exampleTask ''b'', exampleTask ''b'', exampleTask ''c''])))
     = [exampleTask ''a'', exampleTask ''c'']"
  using update_delete_frame [of 1710000005000 "(exampleTask ''b'')\<lparr>status := COMPLETED\<rparr>"
      "Some (Json [exampleTask ''a'', exampleTask ''b'', exampleTask ''c''])" "''b''"]
    update_delete_frame [of 0 "exampleTask ''a''"
      "Some (Json [exampleTask ''a'', exampleTask ''b'', exampleTask ''b'', exampleTask ''c''])" "''b''"]
  by (simp add: updateTask_def deleteTask_def getAllTasks_def getItem_def saveAllTasks_def
      setItem_def JSON_stringify_def exampleTask_def)

section \<open>The default end time\<close>













lemma createTask_appends:
  "collection (snd (createTask env task st)) = collection st @ [fst (createTask env task st)]"
  by (simp add: createTask_def Let_def getAllTasks_saved)



section \<open>Creating\<close>

text \<open>
  The two timestamps come from two readings of the clock, which may differ: here the clock
  ticks between them.
\<close>

theorem createTask_timestamps_counterexample:
  "createdAt (fst (createTask (exampleAmbient ''id-1'') (exampleInput (Some ''09:00'')) None)) = 1710000000000 \<and>
   updatedAt (fst (createTask (exampleAmbient ''id-1'') (exampleInput (Some ''09:00'')) None)) = 1710000000001"
  by (simp add: createTask_def exampleAmbient_def Let_def)

text \<open>
  C1 (amended): \<open>createTask\<close> returns the record whose id is the generated identifier,
  whose \<open>createdAt\<close> is the first reading of the clock and \<open>updatedAt\<close> the second, whose
  end time is the default end time when the input's is absent or empty, whose subtasks are
  empty when absent, and whose other fields are the input's; the collection read afterwards
  is the prior collection with this record appended, so it contains the record.
\<close>

theorem createTask_record:
  "fst (createTask env task st) =
     \<lparr> task_id = randomUUID env,
       date = new_date task,
       startTime = new_startTime task,
       endTime = (case new_endTime task of
                    None \<Rightarrow> calculateDefaultEndTime (zone env) (newDate env) (new_startTime task)
                  | Some e \<Rightarrow> if e = []
                      then calculateDefaultEndTime (zone env) (newDate env) (new_startTime task)
                      else e),
       status = new_status task,
       subtasks = (case new_subtasks task of None \<Rightarrow> [] | Some s \<Rightarrow> s),
       createdAt = now1 env,
       updatedAt = now2 env,
       payload = new_payload task \<rparr> \<and>
   collection (snd (createTask env task st)) = collection st @ [fst (createTask env task st)] \<and>
   fst (createTask env task st) \<in> set (collection (snd (createTask env task st)))"
proof (intro conjI)
  show "collection (snd (createTask env task st)) = collection st @ [fst (createTask env task st)]"
    by (rule createTask_appends)
  then show "fst (createTask env task st) \<in> set (collection (snd (createTask env task st)))"
    by simp
  show "fst (createTask env task st) =
     \<lparr> task_id = randomUUID env,
       date = new_date task,
       startTime = new_startTime task,
       endTime = (case new_endTime task of
                    None \<Rightarrow> calculateDefaultEndTime (zone env) (newDate env) (new_startTime task)
                  | Some e \<Rightarrow> if e = []
                      then calculateDefaultEndTime (zone env) (newDate env) (new_startTime task)
                      else e),
       status = new_status task,
       subtasks = (case new_subtasks task of None \<Rightarrow> [] | Some s \<Rightarrow> s),
       createdAt = now1 env,
       updatedAt = now2 env,
       payload = new_payload task \<rparr>"
    by (simp add: createTask_def Let_def split: option.splits)
qed

section \<open>Invariants of the stored collection\<close>










section \<open>Facts about the calendar\<close>

text \<open>
  The year of a day is the largest year starting on or before it, a year has the days the
  table of leap years gives it, the month and the day of the month stay in range, and the
  day built from a day's own year, month and day of the month is that day.
\<close>

lemma div_step: "0 < k \<Longrightarrow> ((n::int) + 1) div k = n div k + (if (n + 1) mod k = 0 then 1 else 0)"
proof -
  assume k: "0 < k"
  define q where "q = n div k"
  define r where "r = n mod k"
  have n: "n = k * q + r" and r: "0 \<le> r" "r < k"
    using k by (simp_all add: q_def r_def)
  show ?thesis
  proof (cases "r + 1 = k")
    case True
    then have e: "n + 1 = k * (q + 1) + 0" using n by (simp add: algebra_simps)
    have "(n + 1) div k = q + 1"
      by (rule int_div_pos_eq [where r = 0]) (use e k in simp_all)
    moreover have "(n + 1) mod k = 0"
      by (rule int_mod_pos_eq [where q = "q + 1"]) (use e k in simp_all)
    ultimately show ?thesis by (simp add: q_def)
  next
    case False
    then have lt: "r + 1 < k" using r by simp
    have e: "n + 1 = k * q + (r + 1)" using n by simp
    have "(n + 1) div k = q"
      by (rule int_div_pos_eq [where r = "r + 1"]) (use e lt r in simp_all)
    moreover have "(n + 1) mod k = r + 1"
      by (rule int_mod_pos_eq [where q = q]) (use e lt r in simp_all)
    ultimately show ?thesis using r by (simp add: q_def)
  qed
qed

lemma DayFromYear_step: "DayFromYear (y + 1) = DayFromYear y + DaysInYear y"
proof -
  have a: "(y + 1 - 1969) div 4 = (y - 1969) div 4 + (if y mod 4 = 0 then 1 else 0)"
  proof -
    have "(y - 1969 + 1) div 4 = (y - 1969) div 4 + (if (y - 1969 + 1) mod 4 = 0 then 1 else 0)"
      by (rule div_step) simp
    moreover have "(y - 1969 + 1) mod 4 = y mod 4"
      using mod_mult_self1 [of y "- 492" 4] by simp
    ultimately show ?thesis by (simp add: algebra_simps)
  qed
  have b: "(y + 1 - 1901) div 100 = (y - 1901) div 100 + (if y mod 100 = 0 then 1 else 0)"
  proof -
    have "(y - 1901 + 1) div 100 = (y - 1901) div 100 + (if (y - 1901 + 1) mod 100 = 0 then 1 else 0)"
      by (rule div_step) simp
    moreover have "(y - 1901 + 1) mod 100 = y mod 100"
      using mod_mult_self1 [of y "- 19" 100] by simp
    ultimately show ?thesis by (simp add: algebra_simps)
  qed
  have c: "(y + 1 - 1601) div 400 = (y - 1601) div 400 + (if y mod 400 = 0 then 1 else 0)"
  proof -
    have "(y - 1601 + 1) div 400 = (y - 1601) div 400 + (if (y - 1601 + 1) mod 400 = 0 then 1 else 0)"
      by (rule div_step) simp
    moreover have "(y - 1601 + 1) mod 400 = y mod 400"
      using mod_mult_self1 [of y "- 4" 400] by simp
    ultimately show ?thesis by (simp add: algebra_simps)
  qed
  have d1: "y mod 400 = 0 \<Longrightarrow> y mod 100 = 0"
    using mod_mod_cancel [of 100 400 y] by simp
  have d2: "y mod 100 = 0 \<Longrightarrow> y mod 4 = 0"
    using mod_mod_cancel [of 4 100 y] by simp
  show ?thesis
    unfolding DayFromYear_def DaysInYear_def a b c using d1 d2 by auto
qed

lemma div_bounds: "0 < k \<Longrightarrow> k * ((n::int) div k) \<le> n \<and> n < k * (n div k) + k"
proof -
  assume k: "0 < k"
  have "n = k * (n div k) + n mod k" by simp
  moreover have "0 \<le> n mod k" "n mod k < k" using k by simp_all
  ultimately show ?thesis by linarith
qed

lemma DayFromYear_linear:
  "146097 * y - 287811596 \<le> 400 * DayFromYear y \<and> 400 * DayFromYear y \<le> 146097 * y - 287810501"
proof -
  define a where "a = (y - 1969) div 4"
  define b where "b = (y - 1901) div 100"
  define c where "c = (y - 1601) div 400"
  have a: "4 * a \<le> y - 1969" "y - 1969 < 4 * a + 4"
    using div_bounds [of 4 "y - 1969"] by (simp_all add: a_def)
  have b: "100 * b \<le> y - 1901" "y - 1901 < 100 * b + 100"
    using div_bounds [of 100 "y - 1901"] by (simp_all add: b_def)
  have c: "400 * c \<le> y - 1601" "y - 1601 < 400 * c + 400"
    using div_bounds [of 400 "y - 1601"] by (simp_all add: c_def)
  have e: "400 * DayFromYear y = 146000 * y - 287620000 + 400 * a - 400 * b + 400 * c"
    by (simp add: DayFromYear_def a_def b_def c_def algebra_simps)
  show ?thesis unfolding e using a b c by linarith
qed

lemma YearFromDay_bounds:
  "DayFromYear (YearFromDay d) \<le> d \<and> d < DayFromYear (YearFromDay d + 1)"
proof -
  define q where "q = (400 * d) div 146097"
  have q: "146097 * q \<le> 400 * d" "400 * d < 146097 * q + 146097"
    using div_bounds [of 146097 "400 * d"] by (simp_all add: q_def)
  have "400 * DayFromYear (q + 1969) \<le> 146097 * q - 145508"
    using DayFromYear_linear [of "q + 1969"] by simp
  with q have lo: "DayFromYear (q + 1969) \<le> d" by linarith
  have "146097 * q + 146098 \<le> 400 * DayFromYear (q + 1972)"
    using DayFromYear_linear [of "q + 1972"] by simp
  with q have hi: "d < DayFromYear (q + 1972)" by linarith
  have Y: "YearFromDay d =
      (if DayFromYear (1970 + q + 1) \<le> d then 1970 + q + 1
       else if DayFromYear (1970 + q) \<le> d then 1970 + q else 1970 + q - 1)"
    unfolding YearFromDay_def Let_def q_def ..
  have s: "1970 + q - 1 = q + 1969" "1970 + q + 1 + 1 = q + 1972" "q + 1969 + 1 = 1970 + q"
    by simp_all
  consider (up) "DayFromYear (1970 + q + 1) \<le> d"
    | (same) "\<not> DayFromYear (1970 + q + 1) \<le> d" "DayFromYear (1970 + q) \<le> d"
    | (down) "\<not> DayFromYear (1970 + q + 1) \<le> d" "\<not> DayFromYear (1970 + q) \<le> d"
    by blast
  then show ?thesis
  proof cases
    case up
    then have "YearFromDay d = 1970 + q + 1" by (simp only: Y if_True)
    with up hi show ?thesis by (simp only: s)
  next
    case same
    then have "YearFromDay d = 1970 + q" by (simp only: Y if_True if_False)
    with same show ?thesis by simp
  next
    case down
    then have "YearFromDay d = q + 1969" by (simp only: Y if_False s)
    with down lo show ?thesis by (simp only: s) simp
  qed
qed







lemma DayFromYear_mono: "y \<le> z \<Longrightarrow> DayFromYear y \<le> DayFromYear z"
proof (induction z rule: int_ge_induct)
  case base
  show ?case by simp
next
  case (step i)
  have "0 \<le> DaysInYear i" by (simp add: DaysInYear_def)
  with step.IH DayFromYear_step [of i] show ?case by simp
qed

lemma YearFromDay_largest: "DayFromYear y \<le> d \<Longrightarrow> y \<le> YearFromDay d"
proof (rule ccontr)
  assume a: "DayFromYear y \<le> d" and "\<not> y \<le> YearFromDay d"
  then have "YearFromDay d + 1 \<le> y" by simp
  from DayFromYear_mono [OF this] YearFromDay_bounds [of d] a show False by simp
qed











section \<open>Facts about date strings\<close>














section \<open>The week of the dashboard\<close>



















section \<open>The trend of the last 14 days\<close>











section \<open>The status distribution\<close>





end
